theory Spec2Isabelle
  imports Main
begin

section \<open>Worker orchestration of backend-quikscribe: the Docker container manager\<close>

text \<open>
  A shallow embedding of \<^verbatim>\<open>app/modules/google_meeting_bot/docker_container.py\<close>
  (class \<^verbatim>\<open>DockerContainerManager\<close>) and of the handlers of
  \<^verbatim>\<open>app/modules/google_meeting_bot/routes.py\<close> that drive it.

  The manager is sequential code over its attributes \<^verbatim>\<open>used_ports\<close> (a Python
  set), \<^verbatim>\<open>container_map\<close> (a Python dict) and the constant \<^verbatim>\<open>port_range\<close>.
  It takes no lock, and the model is of one call at a time. Everything outside the process (the
  Docker engine, the socket probe, \<^verbatim>\<open>random\<close>, \<^verbatim>\<open>uuid\<close>, the clock, the
  worker's HTTP endpoint) is a parameter of the operation that consults it, so every
  theorem holds for every answer the outside world can give.
\<close>

subsection \<open>Python values\<close>

text \<open>\<^verbatim>\<open>str(n)\<close> for an integer: decimal digits, a minus sign when negative.\<close>

definition digit_char :: "nat \<Rightarrow> char" where
  "digit_char d = char_of (48 + d)"

function str_nat :: "nat \<Rightarrow> string" where
  "str_nat n = (if n < 10 then [digit_char n] else str_nat (n div 10) @ [digit_char (n mod 10)])"
  by pat_completeness auto
termination
  by (relation "measure (\<lambda>n. n)") auto

definition str_int :: "int \<Rightarrow> string" where
  "str_int i = (if i < 0 then CHR ''-'' # str_nat (nat (- i)) else str_nat (nat i))"

text \<open>
  A Python dict keeps its keys in insertion order and holds each key once. It is an
  association list: \<^verbatim>\<open>d[k]\<close> is \<open>map_of d k\<close>, \<^verbatim>\<open>list(d.keys())\<close> is
  \<open>map fst d\<close>, \<^verbatim>\<open>d[k] = v\<close> is \<open>dict_set\<close> (in place when the key is there, at the
  end otherwise) and \<^verbatim>\<open>del d[k]\<close> is \<open>dict_del\<close>.
\<close>

fun dict_set :: "('k \<times> 'v) list \<Rightarrow> 'k \<Rightarrow> 'v \<Rightarrow> ('k \<times> 'v) list" where
  "dict_set [] k v = [(k, v)]"
| "dict_set ((k', v') # d) k v = (if k' = k then (k, v) # d else (k', v') # dict_set d k v)"

definition dict_del :: "('k \<times> 'v) list \<Rightarrow> 'k \<Rightarrow> ('k \<times> 'v) list" where
  "dict_del d k = filter (\<lambda>kv. fst kv \<noteq> k) d"

text \<open>\<^verbatim>\<open>random.choice(xs)\<close> on a non-empty list, with the random draw \<open>r\<close> made explicit.\<close>

definition random_choice :: "'a list \<Rightarrow> nat \<Rightarrow> 'a" where
  "random_choice xs r = xs ! (r mod length xs)"

subsection \<open>The manager's state and the outside world\<close>

text \<open>
  The dict stored per container by \<^verbatim>\<open>start_meeting_bot\<close>. The keys
  \<^verbatim>\<open>docker_status\<close> and \<^verbatim>\<open>running\<close> are absent until the first status lookup.
  \<^verbatim>\<open>started_at\<close> is the clock reading in whole seconds.
\<close>

record container_info =
  container_id :: string
  container_name :: string
  port :: int
  meeting_uuid :: string
  user_id :: string
  meeting_url :: string
  status :: string
  started_at :: int
  docker_status :: "string option"
  running :: "bool option"

record manager =
  used_ports :: "int set"
  container_map :: "(string \<times> container_info) list"
  port_range :: "int \<times> int"

text \<open>\<^verbatim>\<open>__init__\<close>, once \<^verbatim>\<open>docker.from_env()\<close> has returned.\<close>

definition init :: manager where
  "init = \<lparr>used_ports = {}, container_map = [], port_range = (3001, 3999)\<rparr>"

text \<open>
  What the manager can raise: the plain \<^verbatim>\<open>Exception\<close> of an exhausted range (its
  message prints the range), or an exception of the Docker client passed through, with
  the message the client gave it.
\<close>

datatype docker_error = NotFound string | ImageNotFound string | APIError string

datatype error = NoPortsAvailable "int \<times> int" | DockerError docker_error

text \<open>
  The socket probe of one port: the code returned by \<^verbatim>\<open>connect_ex\<close>, or an exception
  (the loop's \<^verbatim>\<open>except Exception: continue\<close>).
\<close>

datatype probe_result = Connect int | ProbeRaised

text \<open>The request \<^verbatim>\<open>client.containers.run\<close> receives.\<close>

record run_request =
  run_image :: string
  run_name :: string
  run_environment :: "(string \<times> string) list"
  run_ports :: "(string \<times> int) list"
  run_detach :: bool
  run_remove :: bool
  run_network_mode :: string

text \<open>
  The Docker engine as one call of the manager sees it: \<open>from_env\<close> is the exception
  \<^verbatim>\<open>docker.from_env()\<close> raises, if any, \<open>containers_get c\<close> is the
  \<^verbatim>\<open>status\<close> of \<^verbatim>\<open>client.containers.get(c)\<close> or the exception it raises,
  \<open>container_stop c\<close> is the exception \<^verbatim>\<open>container.stop(timeout=10)\<close> raises, if any,
  and \<open>containers_run req\<close> is the id of the container started or the exception raised.
\<close>

record engine =
  from_env :: "docker_error option"
  containers_get :: "string \<Rightarrow> docker_error + string"
  container_stop :: "string \<Rightarrow> docker_error option"
  containers_run :: "run_request \<Rightarrow> docker_error + string"

subsection \<open>\<^verbatim>\<open>get_available_port\<close>\<close>

text \<open>
  The loop over \<^verbatim>\<open>range(port_range[0], port_range[1] + 1)\<close>: a port is appended when
  it is not in \<^verbatim>\<open>used_ports\<close> and the probe returned a non-zero code.
\<close>

fun scan_ports :: "int set \<Rightarrow> (int \<Rightarrow> probe_result) \<Rightarrow> int list \<Rightarrow> int list" where
  "scan_ports used probe [] = []"
| "scan_ports used probe (p # ps) =
     (if p \<notin> used then
        (case probe p of
           Connect result \<Rightarrow>
             (if result \<noteq> 0 then p # scan_ports used probe ps else scan_ports used probe ps)
         | ProbeRaised \<Rightarrow> scan_ports used probe ps)
      else scan_ports used probe ps)"

definition available_ports :: "manager \<Rightarrow> (int \<Rightarrow> probe_result) \<Rightarrow> int list" where
  "available_ports m probe =
     scan_ports (used_ports m) probe [fst (port_range m)..snd (port_range m)]"

definition get_available_port ::
  "manager \<Rightarrow> (int \<Rightarrow> probe_result) \<Rightarrow> nat \<Rightarrow> error + (int \<times> manager)" where
  "get_available_port m probe r =
     (let available = available_ports m probe in
      if available = [] then Inl (NoPortsAvailable (port_range m))
      else
        let chosen_port = random_choice available r in
        Inr (chosen_port, m\<lparr>used_ports := insert chosen_port (used_ports m)\<rparr>))"

text \<open>
  The manager has no release method: a port is released by
  \<^verbatim>\<open>self.used_ports.discard(port)\<close>, written out where a launch fails, where a stop
  succeeds and where cleanup finds a dead container.
\<close>

definition discard :: "int \<Rightarrow> manager \<Rightarrow> manager" where
  "discard p m = m\<lparr>used_ports := used_ports m - {p}\<rparr>"











subsection \<open>\<^verbatim>\<open>start_meeting_bot\<close>\<close>

text \<open>
  What a launch reads from outside the manager: the fresh \<^verbatim>\<open>uuid.uuid4()\<close>, the probe
  answers and the random draw of the allocation, and the two readings of the clock
  (\<^verbatim>\<open>int(time.time())\<close> in the container's name, \<^verbatim>\<open>time.time()\<close> in
  \<^verbatim>\<open>started_at\<close>).
\<close>

record launch_env =
  uuid4 :: string
  port_probe :: "int \<Rightarrow> probe_result"
  random_draw :: nat
  time_in_name :: int
  time_started :: int

text \<open>
  The \<^verbatim>\<open>try\<close> body raises from \<^verbatim>\<open>get_available_port\<close> before
  \<^verbatim>\<open>dynamic_port\<close> is bound, or from \<^verbatim>\<open>containers.run\<close> after it; the handler
  discards the port in the second case only (\<^verbatim>\<open>'dynamic_port' in locals()\<close>) and
  re-raises.
\<close>

definition run_request_of ::
  "string \<Rightarrow> string \<Rightarrow> string \<Rightarrow> string \<Rightarrow> int \<Rightarrow> int \<Rightarrow> run_request" where
  "run_request_of name uuid url uid duration dynamic_port =
     \<lparr>run_image = ''meeting-bot:latest'',
      run_name = name,
      run_environment =
        [(''UUID'', uuid), (''MEETING_ID'', url), (''USER_ID'', uid),
         (''DURATION'', str_int duration), (''DYNAMIC_PORT'', str_int dynamic_port)],
      run_ports = [(str_int dynamic_port @ ''/tcp'', dynamic_port)],
      run_detach = True,
      run_remove = True,
      run_network_mode = ''bridge''\<rparr>"

definition start_meeting_bot ::
  "manager \<Rightarrow> engine \<Rightarrow> launch_env \<Rightarrow> string \<Rightarrow> string \<Rightarrow> int
     \<Rightarrow> manager \<times> (error + container_info)" where
  "start_meeting_bot m eng env url uid duration =
     (let uuid = uuid4 env in
      (case get_available_port m (port_probe env) (random_draw env) of
         Inl e \<Rightarrow> (m, Inl e)
       | Inr (dynamic_port, m1) \<Rightarrow>
           (let name = ''meeting-bot-'' @ uid @ ''-'' @ str_int (time_in_name env) @ ''-''
                         @ str_int dynamic_port
            in (case containers_run eng (run_request_of name uuid url uid duration dynamic_port) of
                  Inl e \<Rightarrow> (discard dynamic_port m1, Inl (DockerError e))
                | Inr cid \<Rightarrow>
                    (let info = \<lparr>container_id = cid, container_name = name,
                                  port = dynamic_port, meeting_uuid = uuid, user_id = uid,
                                  meeting_url = url, status = ''starting'',
                                  started_at = time_started env,
                                  docker_status = None, running = None\<rparr>
                     in (m1\<lparr>container_map := dict_set (container_map m1) cid info\<rparr>,
                         Inr info))))))"

subsection \<open>\<^verbatim>\<open>stop_meeting_bot\<close>\<close>

text \<open>
  The \<^verbatim>\<open>try\<close> body. Both calls that can raise (\<^verbatim>\<open>containers.get\<close> and
  \<^verbatim>\<open>container.stop\<close>) come before the port is discarded and the entry deleted, so
  the manager is as it was when one of them raises.
\<close>

definition stop_meeting_bot_body :: "manager \<Rightarrow> engine \<Rightarrow> string \<Rightarrow> error + (manager \<times> bool)" where
  "stop_meeting_bot_body m eng cid =
     (case map_of (container_map m) cid of
        Some info \<Rightarrow>
          (case containers_get eng cid of
             Inl e \<Rightarrow> Inl (DockerError e)
           | Inr st \<Rightarrow>
               (case container_stop eng cid of
                  Some e \<Rightarrow> Inl (DockerError e)
                | None \<Rightarrow>
                    Inr ((discard (port info) m)
                           \<lparr>container_map := dict_del (container_map m) cid\<rparr>, True)))
      | None \<Rightarrow> Inr (m, False))"

text \<open>\<^verbatim>\<open>except Exception as e: ... return False\<close>.\<close>

definition stop_meeting_bot :: "manager \<Rightarrow> engine \<Rightarrow> string \<Rightarrow> manager \<times> bool" where
  "stop_meeting_bot m eng cid =
     (case stop_meeting_bot_body m eng cid of
        Inl e \<Rightarrow> (m, False)
      | Inr result \<Rightarrow> result)"

subsection \<open>\<^verbatim>\<open>get_meeting_bot_status\<close>\<close>

text \<open>
  \<^verbatim>\<open>container_info\<close> is the dict stored in \<^verbatim>\<open>container_map\<close>, not a copy: the
  assignments to its keys change the stored entry, and the same dict is returned. An
  exception of \<^verbatim>\<open>containers.get\<close> is raised before any assignment and turned into
  \<^verbatim>\<open>None\<close>.
\<close>

definition get_meeting_bot_status ::
  "manager \<Rightarrow> engine \<Rightarrow> string \<Rightarrow> manager \<times> container_info option" where
  "get_meeting_bot_status m eng cid =
     (case map_of (container_map m) cid of
        None \<Rightarrow> (m, None)
      | Some info \<Rightarrow>
          (case containers_get eng cid of
             Inl e \<Rightarrow> (m, None)
           | Inr container_status \<Rightarrow>
               let info1 = info\<lparr>docker_status := Some container_status,
                                running := Some (container_status = ''running'')\<rparr>;
                   info2 = (if container_status = ''running'' then info1\<lparr>status := ''running''\<rparr>
                            else if container_status = ''exited'' then info1\<lparr>status := ''stopped''\<rparr>
                            else if container_status = ''created'' then info1\<lparr>status := ''starting''\<rparr>
                            else info1)
               in (m\<lparr>container_map := dict_set (container_map m) cid info2\<rparr>, Some info2)))"

subsection \<open>\<^verbatim>\<open>get_all_meeting_bots\<close>\<close>

text \<open>
  The loop over \<^verbatim>\<open>list(self.container_map.keys())\<close>. A status of \<^verbatim>\<open>None\<close> deletes
  the entry; \<^verbatim>\<open>del\<close> on a key that is not there raises \<^verbatim>\<open>KeyError\<close>, which the
  outer handler turns into the empty list.
\<close>

fun get_all_loop ::
  "engine \<Rightarrow> string list \<Rightarrow> manager \<Rightarrow> container_info list \<Rightarrow> manager \<times> container_info list" where
  "get_all_loop eng [] m active_bots = (m, active_bots)"
| "get_all_loop eng (cid # cids) m active_bots =
     (case get_meeting_bot_status m eng cid of
        (m', Some st) \<Rightarrow> get_all_loop eng cids m' (active_bots @ [st])
      | (m', None) \<Rightarrow>
          (if map_of (container_map m') cid = None then (m', [])
           else get_all_loop eng cids
                  (m'\<lparr>container_map := dict_del (container_map m') cid\<rparr>) active_bots))"

definition get_all_meeting_bots :: "manager \<Rightarrow> engine \<Rightarrow> manager \<times> container_info list" where
  "get_all_meeting_bots m eng = get_all_loop eng (map fst (container_map m)) m []"

subsection \<open>\<^verbatim>\<open>cleanup_dead_containers\<close>\<close>

text \<open>
  The first loop, over \<^verbatim>\<open>self.container_map.items()\<close>: a container is dead when the
  engine reports it \<^verbatim>\<open>exited\<close> or when \<^verbatim>\<open>containers.get\<close> raises; its port is
  discarded at once. The dict itself is not changed until the second loop.
\<close>

fun cleanup_scan ::
  "engine \<Rightarrow> (string \<times> container_info) list \<Rightarrow> manager \<Rightarrow> string list \<Rightarrow> manager \<times> string list" where
  "cleanup_scan eng [] m dead_containers = (m, dead_containers)"
| "cleanup_scan eng ((cid, info) # items) m dead_containers =
     (case containers_get eng cid of
        Inr st \<Rightarrow>
          (if st = ''exited''
           then cleanup_scan eng items (discard (port info) m) (dead_containers @ [cid])
           else cleanup_scan eng items m dead_containers)
      | Inl e \<Rightarrow>
          cleanup_scan eng items
            (case map_of (container_map m) cid of
               Some stored \<Rightarrow> discard (port stored) m
             | None \<Rightarrow> m)
            (dead_containers @ [cid]))"

text \<open>The second loop: \<^verbatim>\<open>if container_id in self.container_map: del ...\<close>.\<close>

fun cleanup_remove :: "string list \<Rightarrow> manager \<Rightarrow> manager" where
  "cleanup_remove [] m = m"
| "cleanup_remove (cid # cids) m =
     cleanup_remove cids
       (if map_of (container_map m) cid \<noteq> None
        then m\<lparr>container_map := dict_del (container_map m) cid\<rparr>
        else m)"

definition cleanup_dead_containers :: "manager \<Rightarrow> engine \<Rightarrow> manager \<times> nat" where
  "cleanup_dead_containers m eng =
     (case cleanup_scan eng (container_map m) m [] of
        (m1, dead_containers) \<Rightarrow> (cleanup_remove dead_containers m1, length dead_containers))"

section \<open>The HTTP handlers of \<^verbatim>\<open>routes.py\<close>\<close>

text \<open>
  The handlers work on the lazily created module-level manager and on the table
  \<^verbatim>\<open>user_google_meeting_data\<close>. The insert of a new row can raise, and its outcome
  is a parameter of the handler that makes it. Queries, and the commits that write a
  constant or a status and port copied from the manager into a row, are taken not to
  raise. A handler's answer is the \<^verbatim>\<open>HTTPException\<close> it raises or the value it
  returns.
\<close>

datatype http_exception = HTTPException (status_code: int) (detail: string)

text \<open>\<^verbatim>\<open>str(e)\<close> of the exceptions that reach an f-string.\<close>

definition str_http_exception :: "http_exception \<Rightarrow> string" where
  "str_http_exception e = str_int (status_code e) @ '': '' @ detail e"

fun str_docker_error :: "docker_error \<Rightarrow> string" where
  "str_docker_error (NotFound msg) = msg"
| "str_docker_error (ImageNotFound msg) = msg"
| "str_docker_error (APIError msg) = msg"

fun str_error :: "error \<Rightarrow> string" where
  "str_error (NoPortsAvailable (lo, hi)) =
     ''No available ports found in range ('' @ str_int lo @ '', '' @ str_int hi @ '')''"
| "str_error (DockerError e) = str_docker_error e"

text \<open>A row of \<^verbatim>\<open>User_google_meeting_data\<close>, with the columns the handlers touch.\<close>

record meeting_row =
  row_id :: string
  row_user_id :: string
  row_meeting_id :: string
  row_meeting_url :: string
  row_meeting_duration :: "int option"
  row_container_id :: "string option"
  row_port :: "int option"
  row_status :: string
  row_bot_logs :: "string option"

record app =
  docker_manager :: "manager option"
  db :: "meeting_row list"

text \<open>
  \<^verbatim>\<open>get_docker_manager\<close>: the manager, created on first use; its caller stores it in
  the module-level variable.
\<close>

definition get_docker_manager :: "manager option \<Rightarrow> engine \<Rightarrow> http_exception + manager" where
  "get_docker_manager g eng =
     (case g of
        Some m \<Rightarrow> Inr m
      | None \<Rightarrow>
          (case from_env eng of
             None \<Rightarrow> Inr init
           | Some e \<Rightarrow> Inl (HTTPException 503 ''Docker is not available in backend container'')))"

text \<open>
  \<^verbatim>\<open>if meeting.container_id:\<close> holds for a string that is neither \<^verbatim>\<open>None\<close> nor
  empty.
\<close>

definition container_of :: "meeting_row \<Rightarrow> string option" where
  "container_of r =
     (case row_container_id r of
        None \<Rightarrow> None
      | Some c \<Rightarrow> if c = [] then None else Some c)"

text \<open>
  \<^verbatim>\<open>db.query(...).filter(id == meeting_id, user_id == current_user.id).first()\<close>, and
  an assignment to the attributes of the object it returned, committed.
\<close>

definition owned_by :: "string \<Rightarrow> string \<Rightarrow> meeting_row \<Rightarrow> bool" where
  "owned_by meeting_id uid r = (row_id r = meeting_id \<and> row_user_id r = uid)"

definition first_meeting :: "meeting_row list \<Rightarrow> string \<Rightarrow> string \<Rightarrow> meeting_row option" where
  "first_meeting rows meeting_id uid = find (owned_by meeting_id uid) rows"

fun update_first :: "('a \<Rightarrow> bool) \<Rightarrow> ('a \<Rightarrow> 'a) \<Rightarrow> 'a list \<Rightarrow> 'a list" where
  "update_first P f [] = []"
| "update_first P f (x # xs) = (if P x then f x # xs else x # update_first P f xs)"

subsection \<open>\<^verbatim>\<open>start_meeting_bot\<close> (POST /meeting-url)\<close>

record meeting_response =
  resp_message :: string
  resp_meeting_id :: string
  resp_container_id :: "string option"
  resp_port :: "int option"
  resp_status :: "string option"

text \<open>
  \<^verbatim>\<open>db.add\<close>, \<^verbatim>\<open>db.commit\<close> and \<^verbatim>\<open>db.refresh\<close> stand in the same \<^verbatim>\<open>try\<close> as
  the launch, after it. \<open>insert_raises row\<close> is the message of the exception they raise
  for the new row, if any (a duration outside the integer column, a key that exists, a
  lost connection). The handler's \<^verbatim>\<open>except\<close> turns it into a 500 like every other
  exception and releases nothing: the worker then stays claimed and tracked in the
  manager, with no row.
\<close>

definition start_meeting_bot_route ::
  "app \<Rightarrow> engine \<Rightarrow> launch_env \<Rightarrow> (meeting_row \<Rightarrow> string option) \<Rightarrow> string \<Rightarrow> string \<Rightarrow> int
     \<Rightarrow> app \<times> (http_exception + meeting_response)" where
  "start_meeting_bot_route a eng env insert_raises url uid duration =
     (case get_docker_manager (docker_manager a) eng of
        Inl e \<Rightarrow>
          (a, Inl (HTTPException 500 (''Failed to start meeting bot: '' @ str_http_exception e)))
      | Inr m \<Rightarrow>
          (case start_meeting_bot m eng env url uid duration of
             (m', Inl e) \<Rightarrow>
               (a\<lparr>docker_manager := Some m'\<rparr>,
                Inl (HTTPException 500 (''Failed to start meeting bot: '' @ str_error e)))
           | (m', Inr info) \<Rightarrow>
               (let meeting_data =
                      \<lparr>row_id = meeting_uuid info, row_user_id = uid,
                       row_meeting_id = meeting_uuid info, row_meeting_url = url,
                       row_meeting_duration = Some duration,
                       row_container_id = Some (container_id info),
                       row_port = Some (port info), row_status = ''starting'',
                       row_bot_logs = Some (''Bot started on port '' @ str_int (port info))\<rparr>
                in (case insert_raises meeting_data of
                      Some message \<Rightarrow>
                        (a\<lparr>docker_manager := Some m'\<rparr>,
                         Inl (HTTPException 500 (''Failed to start meeting bot: '' @ message)))
                    | None \<Rightarrow>
                        (\<lparr>docker_manager = Some m', db = db a @ [meeting_data]\<rparr>,
                         Inr \<lparr>resp_message = ''Meeting bot started successfully'',
                              resp_meeting_id = meeting_uuid info,
                              resp_container_id = Some (container_id info),
                              resp_port = Some (port info),
                              resp_status = Some ''starting''\<rparr>)))))"

subsection \<open>\<^verbatim>\<open>get_user_meetings\<close> (GET /my-meetings)\<close>



subsection \<open>\<^verbatim>\<open>pause_meeting\<close> and \<^verbatim>\<open>resume_meeting\<close>\<close>

text \<open>
  The worker's control endpoint: the answer to a POST is a response with its status
  code, or an exception of the HTTP client (connection refused, timeout after five
  seconds, malformed URL).
\<close>

datatype http_result = Response int | TransportError

definition str_port :: "int option \<Rightarrow> string" where
  "str_port p = (case p of None \<Rightarrow> ''None'' | Some n \<Rightarrow> str_int n)"

definition control_url :: "meeting_row \<Rightarrow> string \<Rightarrow> string \<Rightarrow> string" where
  "control_url meeting meeting_id action =
     ''http://localhost:'' @ str_port (row_port meeting) @ ''/'' @ meeting_id @ ''/meeting/'' @ action"

text \<open>
  In both handlers the inner \<^verbatim>\<open>try\<close> catches \<^verbatim>\<open>Exception\<close>, and
  \<^verbatim>\<open>HTTPException\<close> is one: the 400 raised for a response other than 200 is caught
  there and raised again as a 500, like a transport error.
\<close>

datatype raised = RaisedHTTP http_exception | RaisedByClient

definition pause_meeting ::
  "app \<Rightarrow> (string \<Rightarrow> http_result) \<Rightarrow> string \<Rightarrow> string \<Rightarrow> app \<times> (http_exception + string)" where
  "pause_meeting a post meeting_id uid =
     (case first_meeting (db a) meeting_id uid of
        None \<Rightarrow> (a, Inl (HTTPException 404 ''Meeting not found''))
      | Some meeting \<Rightarrow>
          (case container_of meeting of
             Some cid \<Rightarrow>
               (case (case post (control_url meeting meeting_id ''pause'') of
                        Response code \<Rightarrow>
                          if code = 200
                          then Inr (a\<lparr>db := update_first (owned_by meeting_id uid)
                                              (\<lambda>r. r\<lparr>row_status := ''paused''\<rparr>) (db a)\<rparr>,
                                    ''Meeting paused successfully'')
                          else Inl (RaisedHTTP (HTTPException 400 ''Failed to pause meeting''))
                      | TransportError \<Rightarrow> Inl RaisedByClient) of
                  Inr (a', message) \<Rightarrow> (a', Inr message)
                | Inl e \<Rightarrow> (a, Inl (HTTPException 500 ''Failed to pause meeting'')))
           | None \<Rightarrow> (a, Inl (HTTPException 400 ''Meeting bot not running''))))"

definition resume_meeting ::
  "app \<Rightarrow> (string \<Rightarrow> http_result) \<Rightarrow> string \<Rightarrow> string \<Rightarrow> app \<times> (http_exception + string)" where
  "resume_meeting a post meeting_id uid =
     (case first_meeting (db a) meeting_id uid of
        None \<Rightarrow> (a, Inl (HTTPException 404 ''Meeting not found''))
      | Some meeting \<Rightarrow>
          (case container_of meeting of
             Some cid \<Rightarrow>
               (case (case post (control_url meeting meeting_id ''resume'') of
                        Response code \<Rightarrow>
                          if code = 200
                          then Inr (a\<lparr>db := update_first (owned_by meeting_id uid)
                                              (\<lambda>r. r\<lparr>row_status := ''running''\<rparr>) (db a)\<rparr>,
                                    ''Meeting resumed successfully'')
                          else Inl (RaisedHTTP (HTTPException 400 ''Failed to resume meeting''))
                      | TransportError \<Rightarrow> Inl RaisedByClient) of
                  Inr (a', message) \<Rightarrow> (a', Inr message)
                | Inl e \<Rightarrow> (a, Inl (HTTPException 500 ''Failed to resume meeting'')))
           | None \<Rightarrow> (a, Inl (HTTPException 400 ''Meeting bot not running''))))"

subsection \<open>\<^verbatim>\<open>stop_meeting\<close>\<close>

definition stop_meeting ::
  "app \<Rightarrow> engine \<Rightarrow> string \<Rightarrow> string \<Rightarrow> app \<times> (http_exception + string)" where
  "stop_meeting a eng meeting_id uid =
     (case first_meeting (db a) meeting_id uid of
        None \<Rightarrow> (a, Inl (HTTPException 404 ''Meeting not found''))
      | Some meeting \<Rightarrow>
          (case container_of meeting of
             Some cid \<Rightarrow>
               (case get_docker_manager (docker_manager a) eng of
                  Inl e \<Rightarrow> (a, Inl e)
                | Inr m \<Rightarrow>
                    (case stop_meeting_bot m eng cid of
                       (m', success) \<Rightarrow>
                         if success
                         then (\<lparr>docker_manager = Some m',
                                db = update_first (owned_by meeting_id uid)
                                       (\<lambda>r. r\<lparr>row_status := ''stopped'',
                                              row_container_id := None,
                                              row_port := None\<rparr>) (db a)\<rparr>,
                               Inr ''Meeting stopped successfully'')
                         else (a\<lparr>docker_manager := Some m'\<rparr>,
                               Inl (HTTPException 500 ''Failed to stop meeting bot''))))
           | None \<Rightarrow> (a, Inl (HTTPException 400 ''Meeting bot not running''))))"

section \<open>The Kubernetes job of \<^verbatim>\<open>_build_job_spec\<close>\<close>

text \<open>
  The objects of the Kubernetes client that \<^verbatim>\<open>_build_job_spec\<close> builds, with the
  fields it sets; a list argument that is not given is the empty list. The client
  module is taken to be importable (the callers run \<^verbatim>\<open>_load_k8s_config\<close> first,
  which raises otherwise).
\<close>

record V1EnvVar =
  env_name :: string
  env_value :: string

record V1Volume =
  volume_name :: string
  volume_empty_dir :: bool

record V1VolumeMount =
  mount_name :: string
  mount_path :: string

record V1ContainerPort =
  container_port :: int
  port_name :: string

record V1Probe =
  http_get_path :: string
  http_get_port :: int
  initial_delay_seconds :: int
  period_seconds :: int
  timeout_seconds :: int
  failure_threshold :: int

record V1ResourceRequirements =
  requests :: "(string \<times> string) list"
  limits :: "(string \<times> string) list"

record V1Container =
  c_name :: string
  c_image :: string
  c_image_pull_policy :: string
  c_command :: "string list option"
  c_env :: "V1EnvVar list"
  c_ports :: "V1ContainerPort list"
  c_volume_mounts :: "V1VolumeMount list"
  c_startup_probe :: "V1Probe option"
  c_readiness_probe :: "V1Probe option"
  c_resources :: "V1ResourceRequirements option"

record V1ObjectMeta =
  meta_name :: string
  meta_labels :: "(string \<times> string) list"
  meta_annotations :: "(string \<times> string) list"

record V1PodSpec =
  restart_policy :: string
  containers :: "V1Container list"
  volumes :: "V1Volume list"

record V1PodTemplateSpec =
  template_metadata :: V1ObjectMeta
  template_spec :: V1PodSpec

record V1JobSpec =
  job_template :: V1PodTemplateSpec
  backoff_limit :: int
  ttl_seconds_after_finished :: int

record V1Job =
  api_version :: string
  job_kind :: string
  job_metadata :: V1ObjectMeta
  job_spec :: V1JobSpec

text \<open>\<^verbatim>\<open>record_type or "VIDEO"\<close>: the empty string is false.\<close>

definition or_video :: "string \<Rightarrow> string" where
  "or_video record_type = (if record_type = [] then ''VIDEO'' else record_type)"

definition bot_env :: "string \<Rightarrow> string \<Rightarrow> int \<Rightarrow> string \<Rightarrow> V1EnvVar list" where
  "bot_env meeting_id uuid_val duration_min record_type =
     [\<lparr>env_name = ''MEETING_ID'', env_value = meeting_id\<rparr>,
      \<lparr>env_name = ''UUID'', env_value = uuid_val\<rparr>,
      \<lparr>env_name = ''RECORD_TYPE'', env_value = or_video record_type\<rparr>,
      \<lparr>env_name = ''DURATION'', env_value = str_int duration_min\<rparr>,
      \<lparr>env_name = ''DYNAMIC_PORT'', env_value = ''3000''\<rparr>,
      \<lparr>env_name = ''DISPLAY'', env_value = '':99.0''\<rparr>,
      \<lparr>env_name = ''SELENIUM_URL'', env_value = ''http://localhost:4444/wd/hub''\<rparr>]"

definition bot_container :: "string \<Rightarrow> string \<Rightarrow> int \<Rightarrow> string \<Rightarrow> string \<Rightarrow> V1Container" where
  "bot_container meeting_id uuid_val duration_min record_type img =
     \<lparr>c_name = ''worker'',
      c_image = img,
      c_image_pull_policy = ''IfNotPresent'',
      c_command = Some [''sh'', ''-lc'', ''sleep 12; exec bun run index.ts''],
      c_env = bot_env meeting_id uuid_val duration_min record_type,
      c_ports = [],
      c_volume_mounts =
        [\<lparr>mount_name = ''x11-socket'', mount_path = ''/tmp/.X11-unix''\<rparr>,
         \<lparr>mount_name = ''segments'', mount_path = ''/app/segments''\<rparr>],
      c_startup_probe = None,
      c_readiness_probe = None,
      c_resources =
        Some \<lparr>requests = [(''cpu'', ''250m''), (''memory'', ''512Mi'')],
              limits = [(''cpu'', ''750m''), (''memory'', ''1.5Gi'')]\<rparr>\<rparr>"

definition selenium_container :: V1Container where
  "selenium_container =
     \<lparr>c_name = ''selenium'',
      c_image = ''selenium/standalone-chrome:123.0'',
      c_image_pull_policy = ''IfNotPresent'',
      c_command = None,
      c_env =
        [\<lparr>env_name = ''SE_OPTS'', env_value = ''--session-timeout 300''\<rparr>,
         \<lparr>env_name = ''DISPLAY'', env_value = '':99.0''\<rparr>],
      c_ports = [\<lparr>container_port = 4444, port_name = ''selenium''\<rparr>],
      c_volume_mounts = [\<lparr>mount_name = ''x11-socket'', mount_path = ''/tmp/.X11-unix''\<rparr>],
      c_startup_probe =
        Some \<lparr>http_get_path = ''/status'', http_get_port = 4444,
              initial_delay_seconds = 3, period_seconds = 5, timeout_seconds = 3,
              failure_threshold = 24\<rparr>,
      c_readiness_probe =
        Some \<lparr>http_get_path = ''/status'', http_get_port = 4444,
              initial_delay_seconds = 5, period_seconds = 5, timeout_seconds = 3,
              failure_threshold = 6\<rparr>,
      c_resources =
        Some \<lparr>requests = [(''cpu'', ''500m''), (''memory'', ''512Mi'')],
              limits = [(''cpu'', ''1500m''), (''memory'', ''2Gi'')]\<rparr>\<rparr>"

definition build_job_spec :: "string \<Rightarrow> string \<Rightarrow> int \<Rightarrow> string \<Rightarrow> string \<Rightarrow> V1Job" where
  "build_job_spec meeting_id uuid_val duration_min record_type img =
     (let annotations = [(''meeting/id'', meeting_id), (''meeting/uuid'', uuid_val)];
          pod_spec = \<lparr>restart_policy = ''Never'',
                      containers = [bot_container meeting_id uuid_val duration_min record_type img,
                                    selenium_container],
                      volumes = [\<lparr>volume_name = ''x11-socket'', volume_empty_dir = True\<rparr>,
                                 \<lparr>volume_name = ''segments'', volume_empty_dir = True\<rparr>]\<rparr>;
          pod_meta = \<lparr>meta_name = ''bot-'' @ take 8 uuid_val,
                      meta_labels = [(''app'', ''quikscribe-job-bot'')],
                      meta_annotations = annotations\<rparr>;
          template = \<lparr>template_metadata = pod_meta, template_spec = pod_spec\<rparr>;
          spec = \<lparr>job_template = template, backoff_limit = 0,
                  ttl_seconds_after_finished = 1800\<rparr>;
          job_meta = \<lparr>meta_name = ''bot-job-'' @ take 8 uuid_val,
                      meta_labels = [(''app'', ''quikscribe-job-bot'')],
                      meta_annotations = []\<rparr>
      in \<lparr>api_version = ''batch/v1'', job_kind = ''Job'', job_metadata = job_meta,
          job_spec = spec\<rparr>)"

section \<open>Derived notions\<close>







text \<open>
  What the first loop of \<^verbatim>\<open>cleanup_dead_containers\<close> takes for a dead container:
  the engine reports it \<^verbatim>\<open>exited\<close>, or the lookup raises.
\<close>

definition dead :: "engine \<Rightarrow> string \<Rightarrow> bool" where
  "dead eng cid = (case containers_get eng cid of Inr st \<Rightarrow> st = ''exited'' | Inl e \<Rightarrow> True)"

text \<open>
  What the specification calls a backend resource confirmed absent: the engine answers
  the lookup with \<^verbatim>\<open>NotFound\<close>. Used only to state where the code departs from it.
\<close>

definition confirmed_absent :: "engine \<Rightarrow> string \<Rightarrow> bool" where
  "confirmed_absent eng cid =
     (case containers_get eng cid of Inl (NotFound msg) \<Rightarrow> True | _ \<Rightarrow> False)"

text \<open>The containers of a job's pod template, and a container's variable by name.\<close>

definition job_containers :: "V1Job \<Rightarrow> V1Container list" where
  "job_containers job = containers (template_spec (job_template (job_spec job)))"

definition env_lookup :: "V1EnvVar list \<Rightarrow> string \<Rightarrow> string option" where
  "env_lookup vars name = map_of (map (\<lambda>v. (env_name v, env_value v)) vars) name"

section \<open>Concrete inputs\<close>

text \<open>
  The inputs at which the theorems below are instantiated.

  Two hosts: on \<open>refused\<close> no port of the range is listening (every probe returns
  \<^verbatim>\<open>ECONNREFUSED\<close>, 111), on \<open>busy\<close> every port is taken (every probe connects).
\<close>

definition refused :: "int \<Rightarrow> probe_result" where
  "refused p = Connect 111"


text \<open>
  Engines. \<open>engine_of get\<close> answers lookups with \<open>get\<close>, stops every container and
  starts a container \<^verbatim>\<open>c1\<close>; \<open>up2\<close> starts a container \<^verbatim>\<open>c2\<close> instead. On \<open>up\<close>
  every container is running, on \<open>exited\<close> every container has exited, on \<open>gone\<close> no
  container is known, on \<open>only_c1_runs\<close> only \<^verbatim>\<open>c1\<close> is known, and \<open>unreachable\<close>
  answers every lookup with a server error. \<open>no_image\<close> has no image to start.
\<close>

definition engine_of :: "(string \<Rightarrow> docker_error + string) \<Rightarrow> engine" where
  "engine_of get =
     \<lparr>from_env = None, containers_get = get, container_stop = (\<lambda>c. None),
      containers_run = (\<lambda>req. Inr ''c1'')\<rparr>"

definition up :: engine where
  "up = engine_of (\<lambda>c. Inr ''running'')"

definition up2 :: engine where
  "up2 = up\<lparr>containers_run := (\<lambda>req. Inr ''c2'')\<rparr>"

definition exited :: engine where
  "exited = engine_of (\<lambda>c. Inr ''exited'')"

definition gone :: engine where
  "gone = engine_of (\<lambda>c. Inl (NotFound ''No such container''))"

definition only_c1_runs :: engine where
  "only_c1_runs =
     engine_of (\<lambda>c. if c = ''c1'' then Inr ''running'' else Inl (NotFound ''No such container''))"

definition unreachable :: engine where
  "unreachable = engine_of (\<lambda>c. Inl (APIError ''500 Server Error''))"


text \<open>
  Two launches, by \<^verbatim>\<open>alice\<close> and then by \<^verbatim>\<open>bob\<close>, and the manager after the first
  (\<open>launched\<close>) and after both (\<open>two_workers\<close>); \<open>launch_succeeds\<close> and
  \<open>second_launch_succeeds\<close> below show that \<^verbatim>\<open>start_meeting_bot\<close> produces them.
\<close>

definition meet_url :: string where
  "meet_url = ''https://meet.google.com/abc-defg-hij''"

definition env1 :: launch_env where
  "env1 = \<lparr>uuid4 = ''u1'', port_probe = refused, random_draw = 0,
            time_in_name = 17, time_started = 17\<rparr>"

definition env2 :: launch_env where
  "env2 = \<lparr>uuid4 = ''u2'', port_probe = refused, random_draw = 0,
            time_in_name = 18, time_started = 18\<rparr>"

definition info1 :: container_info where
  "info1 = \<lparr>container_id = ''c1'', container_name = ''meeting-bot-alice-17-3001'',
             port = 3001, meeting_uuid = ''u1'', user_id = ''alice'',
             meeting_url = meet_url, status = ''starting'', started_at = 17,
             docker_status = None, running = None\<rparr>"

definition info2 :: container_info where
  "info2 = \<lparr>container_id = ''c2'', container_name = ''meeting-bot-bob-18-3002'',
             port = 3002, meeting_uuid = ''u2'', user_id = ''bob'',
             meeting_url = meet_url, status = ''starting'', started_at = 18,
             docker_status = None, running = None\<rparr>"

definition launched :: manager where
  "launched = \<lparr>used_ports = {3001}, container_map = [(''c1'', info1)],
                port_range = (3001, 3999)\<rparr>"

definition two_workers :: manager where
  "two_workers = \<lparr>used_ports = {3001, 3002},
                   container_map = [(''c1'', info1), (''c2'', info2)],
                   port_range = (3001, 3999)\<rparr>"

text \<open>
  The application after the first launch through the handler (\<open>started\<close>, shown by
  \<open>route_launch_succeeds\<close>), after the list handler has then seen the container exited
  (\<open>seen_exited\<close>, shown by \<open>list_sees_exited\<close>), and after an explicit stop
  (\<open>after_stop\<close>, shown by \<open>explicit_stop_of_started\<close>).
\<close>

definition row1 :: meeting_row where
  "row1 = \<lparr>row_id = ''u1'', row_user_id = ''alice'', row_meeting_id = ''u1'',
            row_meeting_url = meet_url, row_meeting_duration = Some 60,
            row_container_id = Some ''c1'', row_port = Some 3001,
            row_status = ''starting'',
            row_bot_logs = Some ''Bot started on port 3001''\<rparr>"

definition started :: app where
  "started = \<lparr>docker_manager = Some launched, db = [row1]\<rparr>"


definition stopped_row :: meeting_row where
  "stopped_row = row1\<lparr>row_status := ''stopped'', row_container_id := None, row_port := None\<rparr>"

definition after_stop :: app where
  "after_stop = \<lparr>docker_manager = Some init, db = [stopped_row]\<rparr>"


definition rejects :: "meeting_row \<Rightarrow> string option" where
  "rejects row = Some ''integer out of range''"

text \<open>A control endpoint that gives the same answer to every request.\<close>

definition answers :: "http_result \<Rightarrow> string \<Rightarrow> http_result" where
  "answers res url = res"

text \<open>A job as \<^verbatim>\<open>start_meeting_job\<close> builds it.\<close>

definition example_job :: V1Job where
  "example_job = build_job_spec ''abc-defg-hij'' ''0f8fad5b-d9cb-469f-a165-70867728950e'' 5
                   ''VIDEO'' ''registry.example/quikscribe-google-bot:latest''"

section \<open>Properties of the port allocator\<close>









lemma scan_ports_refused: "scan_ports {} refused ps = ps"
  by (induction ps) (auto simp: refused_def)

lemma get_available_port_first:
  assumes "lo \<le> hi"
  shows "get_available_port \<lparr>used_ports = {}, container_map = [], port_range = (lo, hi)\<rparr> refused 0
     = Inr (lo, \<lparr>used_ports = {lo}, container_map = [], port_range = (lo, hi)\<rparr>)"
proof -
  have "[lo..hi] = lo # [lo + 1..hi]" using assms by (rule upto_rec1)
  then show ?thesis
    by (simp add: get_available_port_def available_ports_def scan_ports_refused Let_def
        random_choice_def refused_def)
qed

















section \<open>Properties of the manager\<close>




lemma str_int_17: "str_int 17 = ''17''"
  by code_simp

lemma str_int_3001: "str_int 3001 = ''3001''"
  by code_simp

lemma get_available_port_fresh_manager:
  "get_available_port \<lparr>used_ports = {}, container_map = [], port_range = (3001, 3999)\<rparr> refused 0
     = Inr (3001, \<lparr>used_ports = {3001}, container_map = [], port_range = (3001, 3999)\<rparr>)"
  using get_available_port_first[of 3001 3999] by simp

lemma launch_succeeds:
  "start_meeting_bot init (engine_of get) env1 meet_url ''alice'' 60 = (launched, Inr info1)"
  by (simp add: start_meeting_bot_def env1_def get_available_port_fresh_manager engine_of_def
      str_int_17 str_int_3001 info1_def launched_def init_def Let_def)

lemma scan_ports_refused_above:
  "\<forall>q \<in> set ps. q \<notin> used \<Longrightarrow> scan_ports used refused ps = ps"
  by (induction ps) (auto simp: refused_def)

lemma get_available_port_second:
  assumes "lo < hi"
  shows "get_available_port \<lparr>used_ports = {lo}, container_map = cm, port_range = (lo, hi)\<rparr> refused 0
     = Inr (lo + 1, \<lparr>used_ports = {lo + 1, lo}, container_map = cm, port_range = (lo, hi)\<rparr>)"
proof -
  have "[lo..hi] = lo # [lo + 1..hi]" using assms by (simp add: upto_rec1)
  moreover have "[lo + 1..hi] = (lo + 1) # [lo + 1 + 1..hi]" using assms by (simp add: upto_rec1)
  ultimately have "scan_ports {lo} refused [lo..hi]
      = (lo + 1) # scan_ports {lo} refused [lo + 1 + 1..hi]"
    by (simp add: refused_def)
  then show ?thesis
    by (simp add: get_available_port_def available_ports_def Let_def random_choice_def)
qed

lemma str_int_18: "str_int 18 = ''18''"
  by code_simp

lemma str_int_3002: "str_int 3002 = ''3002''"
  by code_simp

lemma second_launch_succeeds:
  "start_meeting_bot launched up2 env2 meet_url ''bob'' 60 = (two_workers, Inr info2)"
proof -
  have "get_available_port launched refused 0
      = Inr (3002, \<lparr>used_ports = {3002, 3001}, container_map = [(''c1'', info1)],
                    port_range = (3001, 3999)\<rparr>)"
    unfolding launched_def using get_available_port_second[of 3001 3999 "[(''c1'', info1)]"]
    by (simp del: upto_rec_numeral)
  moreover have "{3002, 3001} = {3001, 3002::int}" by auto
  ultimately show ?thesis
    by (simp add: start_meeting_bot_def env2_def up2_def up_def engine_of_def Let_def
        str_int_18 str_int_3002 info2_def two_workers_def)
qed






text \<open>
  Outside the failures of claim C4: when the launch has succeeded and the insert of
  the row raises, the handler answers 500 and the worker stays claimed and tracked.
\<close>

lemma insert_failure_leaves_worker_tracked:
  "start_meeting_bot_route \<lparr>docker_manager = None, db = []\<rparr> up env1 rejects meet_url ''alice'' 60
     = (\<lparr>docker_manager = Some launched, db = []\<rparr>,
        Inl (HTTPException 500 ''Failed to start meeting bot: integer out of range''))"
proof -
  have l: "start_meeting_bot init up env1 meet_url ''alice'' 60 = (launched, Inr info1)"
    unfolding up_def by (rule launch_succeeds)
  have g: "get_docker_manager None up = Inr init"
    by (simp add: get_docker_manager_def up_def engine_of_def)
  show ?thesis
    by (simp add: start_meeting_bot_route_def g l rejects_def)
qed

lemma get_meeting_bot_status_ports:
  "used_ports (fst (get_meeting_bot_status m eng cid)) = used_ports m"
  by (simp add: get_meeting_bot_status_def Let_def split: option.splits sum.splits)

lemma get_all_loop_ports:
  "used_ports (fst (get_all_loop eng cids m active)) = used_ports m"
proof (induction cids arbitrary: m active)
  case Nil
  then show ?case by simp
next
  case (Cons cid cids)
  obtain m' st where s: "get_meeting_bot_status m eng cid = (m', st)"
    by (cases "get_meeting_bot_status m eng cid")
  have m': "used_ports m' = used_ports m"
    using get_meeting_bot_status_ports[of m eng cid] s by simp
  show ?case
    using Cons.IH s m' by (cases st) auto
qed

lemma get_all_meeting_bots_ports:
  "used_ports (fst (get_all_meeting_bots m eng)) = used_ports m"
  by (simp add: get_all_meeting_bots_def get_all_loop_ports)

text \<open>
  Claim C1: the port of a launched worker is released exactly once, and is not left
  claimed once the worker is removed from tracking. The code breaks it:
  \<^verbatim>\<open>get_all_meeting_bots\<close> never changes \<^verbatim>\<open>used_ports\<close>, although it deletes
  from \<^verbatim>\<open>container_map\<close> every entry whose status lookup returned \<^verbatim>\<open>None\<close>,
  where \<^verbatim>\<open>stop_meeting_bot\<close> and \<^verbatim>\<open>cleanup_dead_containers\<close> discard the port
  before they delete an entry. At a concrete run: a worker is launched on port
  3001; its container disappears from the engine; \<^verbatim>\<open>get_all_meeting_bots\<close> then
  deletes the entry and leaves 3001 claimed. No later call can release it:
  \<^verbatim>\<open>cleanup_dead_containers\<close> finds nothing to clean. Had cleanup run first, on the
  same state and the same engine, the port would have been released.
\<close>

theorem get_all_meeting_bots_leaks_port:
  "used_ports (fst (get_all_meeting_bots m eng)) = used_ports m
   \<and> start_meeting_bot init up env1 meet_url ''alice'' 60 = (launched, Inr info1)
   \<and> get_all_meeting_bots launched gone = (launched\<lparr>container_map := []\<rparr>, [])
   \<and> 3001 \<in> used_ports (launched\<lparr>container_map := []\<rparr>)
   \<and> cleanup_dead_containers (launched\<lparr>container_map := []\<rparr>) gone
        = (launched\<lparr>container_map := []\<rparr>, 0)
   \<and> cleanup_dead_containers launched gone = (init, 1)"
proof (intro conjI)
  show "used_ports (fst (get_all_meeting_bots m eng)) = used_ports m"
    by (rule get_all_meeting_bots_ports)
  show "start_meeting_bot init up env1 meet_url ''alice'' 60 = (launched, Inr info1)"
    unfolding up_def by (rule launch_succeeds)
  show "get_all_meeting_bots launched gone = (launched\<lparr>container_map := []\<rparr>, [])"
    by (simp add: get_all_meeting_bots_def get_meeting_bot_status_def launched_def gone_def
        engine_of_def dict_del_def)
  show "3001 \<in> used_ports (launched\<lparr>container_map := []\<rparr>)"
    by (simp add: launched_def)
  show "cleanup_dead_containers (launched\<lparr>container_map := []\<rparr>) gone
        = (launched\<lparr>container_map := []\<rparr>, 0)"
    by (simp add: cleanup_dead_containers_def launched_def)
  show "cleanup_dead_containers launched gone = (init, 1)"
    by (simp add: cleanup_dead_containers_def launched_def gone_def engine_of_def discard_def
        dict_del_def init_def info1_def)
qed

lemma get_meeting_bot_status_found:
  assumes "map_of (container_map m) cid = Some info" and "containers_get eng cid = Inr ds"
  shows "\<exists>info'. get_meeting_bot_status m eng cid
             = (m\<lparr>container_map := dict_set (container_map m) cid info'\<rparr>, Some info')
           \<and> status info' = (if ds = ''running'' then ''running''
                              else if ds = ''exited'' then ''stopped''
                              else if ds = ''created'' then ''starting''
                              else status info)
           \<and> docker_status info' = Some ds
           \<and> running info' = Some (ds = ''running'')
           \<and> port info' = port info"
  using assms by (simp add: get_meeting_bot_status_def Let_def)

lemma get_meeting_bot_status_raised:
  assumes "map_of (container_map m) cid = Some info" and "containers_get eng cid = Inl e"
  shows "get_meeting_bot_status m eng cid = (m, None)"
  using assms by (simp add: get_meeting_bot_status_def)

text \<open>
  Claim C3, as the code has it. For a tracked container, the engine's \<^verbatim>\<open>running\<close>
  is recorded as \<^verbatim>\<open>running\<close>, \<^verbatim>\<open>exited\<close> as \<^verbatim>\<open>stopped\<close> and
  \<^verbatim>\<open>created\<close> as \<^verbatim>\<open>starting\<close>; any other engine state leaves the recorded
  status as it was. When the lookup raises (the container is unknown to the engine),
  nothing is recorded and the answer is \<^verbatim>\<open>None\<close>.
\<close>

theorem status_follows_engine_state:
  "map_of (container_map m) cid = Some info \<longrightarrow>
     (containers_get eng cid = Inr ds \<longrightarrow>
        (\<exists>info'. get_meeting_bot_status m eng cid
             = (m\<lparr>container_map := dict_set (container_map m) cid info'\<rparr>, Some info')
           \<and> status info' = (if ds = ''running'' then ''running''
                              else if ds = ''exited'' then ''stopped''
                              else if ds = ''created'' then ''starting''
                              else status info)
           \<and> docker_status info' = Some ds
           \<and> running info' = Some (ds = ''running'')
           \<and> port info' = port info))
     \<and> (containers_get eng cid = Inl e \<longrightarrow> get_meeting_bot_status m eng cid = (m, None))"
  using get_meeting_bot_status_found get_meeting_bot_status_raised by (intro impI conjI) blast+

theorem status_follows_engine_state_witness:
  "map_of (container_map launched) ''c1'' = Some info1
   \<and> containers_get exited ''c1'' = Inr ''exited''
   \<and> containers_get gone ''c1'' = Inl (NotFound ''No such container'')
   \<and> (\<exists>info'. get_meeting_bot_status launched exited ''c1''
             = (launched\<lparr>container_map := dict_set (container_map launched) ''c1'' info'\<rparr>,
                Some info')
           \<and> status info' = ''stopped'')
   \<and> get_meeting_bot_status launched gone ''c1'' = (launched, None)"
proof -
  have tracked: "map_of (container_map launched) ''c1'' = Some info1"
    by (simp add: launched_def)
  have ex: "containers_get exited ''c1'' = Inr ''exited''"
    by (simp add: exited_def engine_of_def)
  have nf: "containers_get gone ''c1'' = Inl (NotFound ''No such container'')"
    by (simp add: gone_def engine_of_def)
  from status_follows_engine_state
         [of launched "''c1''" info1 exited "''exited''" "NotFound ''No such container''"]
       tracked ex
  have one: "\<exists>info'. get_meeting_bot_status launched exited ''c1''
             = (launched\<lparr>container_map := dict_set (container_map launched) ''c1'' info'\<rparr>,
                Some info')
           \<and> status info' = ''stopped''"
    by auto
  from status_follows_engine_state
         [of launched "''c1''" info1 gone "''exited''" "NotFound ''No such container''"]
       tracked nf
  have two: "get_meeting_bot_status launched gone ''c1'' = (launched, None)"
    by simp
  from tracked ex nf one two show ?thesis by blast
qed

text \<open>
  Claim C3 as stated fails: an exited container is recorded as \<^verbatim>\<open>stopped\<close>, not as
  failed, and a container unknown to the engine gets no status at all.
\<close>

theorem exited_is_recorded_as_stopped_not_failed:
  "map_option status (snd (get_meeting_bot_status launched exited ''c1'')) = Some ''stopped''
   \<and> ''stopped'' \<noteq> ''failed''
   \<and> get_meeting_bot_status launched gone ''c1'' = (launched, None)"
  by (simp add: get_meeting_bot_status_def launched_def exited_def gone_def engine_of_def
      Let_def)

lemma stop_meeting_bot_cases:
  "stop_meeting_bot m eng cid =
     (case map_of (container_map m) cid of
        None \<Rightarrow> (m, False)
      | Some info \<Rightarrow>
          (case containers_get eng cid of
             Inl e \<Rightarrow> (m, False)
           | Inr st \<Rightarrow>
               (case container_stop eng cid of
                  Some e \<Rightarrow> (m, False)
                | None \<Rightarrow> ((discard (port info) m)\<lparr>container_map := dict_del (container_map m) cid\<rparr>,
                           True))))"
  by (simp add: stop_meeting_bot_def stop_meeting_bot_body_def
      split: option.splits sum.splits)

text \<open>
  Claim C6, as the code has it. \<^verbatim>\<open>stop_meeting_bot\<close> never raises and always returns
  a boolean. For a tracked worker whose container the engine no longer knows the
  answer is \<^verbatim>\<open>False\<close>, and the manager keeps the port and the entry; more
  generally any exception in the body gives \<^verbatim>\<open>False\<close> and an unchanged manager.
  The answer is \<^verbatim>\<open>True\<close> exactly when the worker is tracked, the engine finds the
  container and stops it.
\<close>

theorem stop_of_vanished_container_fails_quietly:
  "(map_of (container_map m) cid = Some info \<and> containers_get eng cid = Inl e \<longrightarrow>
      stop_meeting_bot m eng cid = (m, False))
   \<and> (stop_meeting_bot_body m eng cid = Inl x \<longrightarrow> stop_meeting_bot m eng cid = (m, False))
   \<and> (snd (stop_meeting_bot m eng cid) \<longleftrightarrow>
        map_of (container_map m) cid \<noteq> None
        \<and> (\<exists>st. containers_get eng cid = Inr st)
        \<and> container_stop eng cid = None)"
proof (intro conjI impI)
  assume "map_of (container_map m) cid = Some info \<and> containers_get eng cid = Inl e"
  then show "stop_meeting_bot m eng cid = (m, False)"
    by (simp add: stop_meeting_bot_cases)
next
  assume "stop_meeting_bot_body m eng cid = Inl x"
  then show "stop_meeting_bot m eng cid = (m, False)"
    by (simp add: stop_meeting_bot_def)
next
  show "snd (stop_meeting_bot m eng cid) \<longleftrightarrow>
        map_of (container_map m) cid \<noteq> None
        \<and> (\<exists>st. containers_get eng cid = Inr st)
        \<and> container_stop eng cid = None"
    by (auto simp: stop_meeting_bot_cases split: option.splits sum.splits)
qed

theorem stop_of_vanished_container_fails_quietly_witness:
  "map_of (container_map launched) ''c1'' = Some info1
   \<and> containers_get gone ''c1'' = Inl (NotFound ''No such container'')
   \<and> stop_meeting_bot_body launched gone ''c1'' = Inl (DockerError (NotFound ''No such container''))
   \<and> stop_meeting_bot launched gone ''c1'' = (launched, False)
   \<and> snd (stop_meeting_bot launched up ''c1'')"
proof -
  have tracked: "map_of (container_map launched) ''c1'' = Some info1"
    by (simp add: launched_def)
  have nf: "containers_get gone ''c1'' = Inl (NotFound ''No such container'')"
    by (simp add: gone_def engine_of_def)
  have body: "stop_meeting_bot_body launched gone ''c1''
                = Inl (DockerError (NotFound ''No such container''))"
    by (simp add: stop_meeting_bot_body_def tracked nf)
  have ok: "containers_get up ''c1'' = Inr ''running''" "container_stop up ''c1'' = None"
    by (simp_all add: up_def engine_of_def)
  from stop_of_vanished_container_fails_quietly
         [of launched "''c1''" info1 gone "NotFound ''No such container''"
             "DockerError (NotFound ''No such container'')"]
       tracked nf
  have one: "stop_meeting_bot launched gone ''c1'' = (launched, False)" by simp
  from stop_of_vanished_container_fails_quietly
         [of launched "''c1''" info1 up "NotFound ''No such container''"
             "DockerError (NotFound ''No such container'')"]
       tracked ok
  have two: "snd (stop_meeting_bot launched up ''c1'')" by simp
  from tracked nf body one two show ?thesis by blast
qed

text \<open>
  Claim C6 as stated fails: stopping a tracked worker whose container is already gone
  returns \<^verbatim>\<open>False\<close>, not success.
\<close>

theorem stop_of_vanished_container_returns_false:
  "map_of (container_map launched) ''c1'' = Some info1
   \<and> containers_get gone ''c1'' = Inl (NotFound ''No such container'')
   \<and> snd (stop_meeting_bot launched gone ''c1'') = False
   \<and> fst (stop_meeting_bot launched gone ''c1'') = launched"
  by (simp add: stop_meeting_bot_cases launched_def gone_def engine_of_def)

section \<open>Properties of cleanup\<close>

lemma discard_fields [simp]:
  "container_map (discard p m) = container_map m"
  "port_range (discard p m) = port_range m"
  "used_ports (discard p m) = used_ports m - {p}"
  by (simp_all add: discard_def)

lemma cleanup_scan_frame:
  "container_map (fst (cleanup_scan eng items m d)) = container_map m
   \<and> port_range (fst (cleanup_scan eng items m d)) = port_range m"
  by (induction items arbitrary: m d) (auto split: sum.splits option.splits)

lemma cleanup_scan_dead:
  "snd (cleanup_scan eng items m d) = d @ map fst (filter (\<lambda>kv. dead eng (fst kv)) items)"
  by (induction items arbitrary: m d) (auto simp: dead_def split: sum.splits)

lemma cleanup_scan_ports:
  assumes "\<And>cid info. (cid, info) \<in> set items \<Longrightarrow> map_of (container_map m) cid = Some info"
  shows "used_ports (fst (cleanup_scan eng items m d))
           = used_ports m - port ` snd ` {kv \<in> set items. dead eng (fst kv)}"
  using assms
proof (induction items arbitrary: m d)
  case Nil
  then show ?case by simp
next
  case (Cons kv items)
  obtain cid info where kv: "kv = (cid, info)" by (cases kv)
  have stored: "map_of (container_map m) cid = Some info"
    using Cons.prems kv by simp
  have rest: "\<And>m'. container_map m' = container_map m \<Longrightarrow>
      used_ports (fst (cleanup_scan eng items m' d'))
        = used_ports m' - port ` snd ` {kv \<in> set items. dead eng (fst kv)}" for d'
    using Cons.IH Cons.prems by simp
  let ?D = "port ` snd ` {kv \<in> set items. dead eng (fst kv)}"
  have split_dead: "dead eng cid \<Longrightarrow>
      port ` snd ` {kv \<in> set ((cid, info) # items). dead eng (fst kv)} = insert (port info) ?D"
  proof -
    assume dd: "dead eng cid"
    then have "{kv \<in> set ((cid, info) # items). dead eng (fst kv)}
        = insert (cid, info) {kv \<in> set items. dead eng (fst kv)}"
      by auto
    then show ?thesis by simp
  qed
  have split_live: "\<not> dead eng cid \<Longrightarrow>
      port ` snd ` {kv \<in> set ((cid, info) # items). dead eng (fst kv)} = ?D"
    by auto
  show ?case
  proof (cases "dead eng cid")
    case True
    then have step: "fst (cleanup_scan eng (kv # items) m d)
        = fst (cleanup_scan eng items (discard (port info) m) (d @ [cid]))"
      using stored kv by (auto simp: dead_def split: sum.splits)
    have "used_ports (fst (cleanup_scan eng items (discard (port info) m) (d @ [cid])))
        = used_ports m - {port info} - ?D"
      using rest[of "discard (port info) m" "d @ [cid]"] by simp
    also have "\<dots> = used_ports m - insert (port info) ?D" by blast
    finally show ?thesis using step split_dead[OF True] kv by simp
  next
    case False
    then have step: "fst (cleanup_scan eng (kv # items) m d) = fst (cleanup_scan eng items m d)"
      using kv by (auto simp: dead_def split: sum.splits)
    show ?thesis using step rest[of m d] split_live[OF False] kv by simp
  qed
qed

lemma cleanup_remove_frame:
  "used_ports (cleanup_remove cids m) = used_ports m
   \<and> port_range (cleanup_remove cids m) = port_range m"
  by (induction cids arbitrary: m) auto

lemma cleanup_remove_map:
  "container_map (cleanup_remove cids m) = filter (\<lambda>kv. fst kv \<notin> set cids) (container_map m)"
proof (induction cids arbitrary: m)
  case Nil
  then show ?case by simp
next
  case (Cons cid cids)
  have absent: "map_of (container_map m) cid = None \<Longrightarrow>
      filter (\<lambda>kv. fst kv \<noteq> cid) (container_map m) = container_map m"
    by (rule filter_True) (auto simp: map_of_eq_None_iff image_iff)
  show ?case
    using Cons.IH[of "m\<lparr>container_map := dict_del (container_map m) cid\<rparr>"] Cons.IH[of m] absent
    by (auto simp: dict_del_def conj_commute cong: filter_cong)
qed

lemma cleanup_dead_containers_result:
  assumes "distinct (map fst (container_map m))"
  shows "container_map (fst (cleanup_dead_containers m eng))
           = filter (\<lambda>kv. \<not> dead eng (fst kv)) (container_map m)"
    and "snd (cleanup_dead_containers m eng)
           = length (filter (\<lambda>kv. dead eng (fst kv)) (container_map m))"
    and "used_ports (fst (cleanup_dead_containers m eng))
           = used_ports m - port ` snd ` {kv \<in> set (container_map m). dead eng (fst kv)}"
    and "port_range (fst (cleanup_dead_containers m eng)) = port_range m"
proof -
  obtain m1 d where scan: "cleanup_scan eng (container_map m) m [] = (m1, d)"
    by (cases "cleanup_scan eng (container_map m) m []")
  have d: "d = map fst (filter (\<lambda>kv. dead eng (fst kv)) (container_map m))"
    using cleanup_scan_dead[of eng "container_map m" m "[]"] scan by simp
  have m1: "container_map m1 = container_map m" "port_range m1 = port_range m"
    using cleanup_scan_frame[of eng "container_map m" m "[]"] scan by simp_all
  have ports: "used_ports m1
      = used_ports m - port ` snd ` {kv \<in> set (container_map m). dead eng (fst kv)}"
    using cleanup_scan_ports[of "container_map m" m eng "[]"] assms scan by simp
  have res: "cleanup_dead_containers m eng = (cleanup_remove d m1, length d)"
    by (simp add: cleanup_dead_containers_def scan)
  have mem: "fst kv \<in> set d \<longleftrightarrow> dead eng (fst kv)" if "kv \<in> set (container_map m)" for kv
    using that unfolding d by force
  show "container_map (fst (cleanup_dead_containers m eng))
           = filter (\<lambda>kv. \<not> dead eng (fst kv)) (container_map m)"
    using mem by (simp add: res cleanup_remove_map m1 cong: filter_cong)
  show "snd (cleanup_dead_containers m eng)
           = length (filter (\<lambda>kv. dead eng (fst kv)) (container_map m))"
    by (simp add: res d)
  show "used_ports (fst (cleanup_dead_containers m eng))
           = used_ports m - port ` snd ` {kv \<in> set (container_map m). dead eng (fst kv)}"
    by (simp add: res cleanup_remove_frame ports)
  show "port_range (fst (cleanup_dead_containers m eng)) = port_range m"
    by (simp add: res cleanup_remove_frame m1)
qed

text \<open>
  Claim C8, as the code has it. Cleanup counts as dead every tracked container that the
  engine reports \<^verbatim>\<open>exited\<close> or whose lookup raises, for whatever reason. It removes
  exactly these entries from \<^verbatim>\<open>container_map\<close>, releases exactly their ports, and
  returns their number.
\<close>

theorem cleanup_removes_exited_or_unreachable:
  "distinct (map fst (container_map m)) \<Longrightarrow>
     container_map (fst (cleanup_dead_containers m eng))
       = filter (\<lambda>kv. \<not> dead eng (fst kv)) (container_map m)
     \<and> snd (cleanup_dead_containers m eng)
       = length (filter (\<lambda>kv. dead eng (fst kv)) (container_map m))
     \<and> used_ports (fst (cleanup_dead_containers m eng))
       = used_ports m - port ` snd ` {kv \<in> set (container_map m). dead eng (fst kv)}
     \<and> port_range (fst (cleanup_dead_containers m eng)) = port_range m"
  using cleanup_dead_containers_result[of m eng] by simp

theorem cleanup_removes_exited_or_unreachable_witness:
  "start_meeting_bot launched up2 env2 meet_url ''bob'' 60 = (two_workers, Inr info2)
   \<and> distinct (map fst (container_map two_workers))
   \<and> container_map (fst (cleanup_dead_containers two_workers only_c1_runs)) = [(''c1'', info1)]
   \<and> snd (cleanup_dead_containers two_workers only_c1_runs) = 1
   \<and> used_ports (fst (cleanup_dead_containers two_workers only_c1_runs)) = {3001}"
proof -
  have dist: "distinct (map fst (container_map two_workers))"
    by (simp add: two_workers_def)
  have d1: "\<not> dead only_c1_runs ''c1''" and d2: "dead only_c1_runs ''c2''"
    by (simp_all add: dead_def only_c1_runs_def engine_of_def)
  have deads: "{kv \<in> set (container_map two_workers). dead only_c1_runs (fst kv)} = {(''c2'', info2)}"
    using d1 d2 by (auto simp: two_workers_def)
  have cm: "container_map two_workers = [(''c1'', info1), (''c2'', info2)]"
    and used: "used_ports two_workers = {3001, 3002}"
    by (simp_all add: two_workers_def)
  have kept: "filter (\<lambda>kv. \<not> dead only_c1_runs (fst kv)) (container_map two_workers)
                = [(''c1'', info1)]"
    and counted: "length (filter (\<lambda>kv. dead only_c1_runs (fst kv)) (container_map two_workers)) = 1"
    using d1 d2 by (simp_all add: cm)
  have released: "used_ports two_workers
      - port ` snd ` {kv \<in> set (container_map two_workers). dead only_c1_runs (fst kv)} = {3001}"
    unfolding deads used by (auto simp: info2_def)
  from cleanup_removes_exited_or_unreachable[OF dist, of only_c1_runs]
  show ?thesis unfolding kept counted released using dist second_launch_succeeds by blast
qed

text \<open>
  Claim C8 as stated fails: a container that the engine knows, in state
  \<^verbatim>\<open>exited\<close>, is removed and counted, and so is a container whose lookup failed
  because the engine could not be asked. Neither was confirmed absent.
\<close>

theorem cleanup_counts_exited_and_unreachable:
  "length (filter (\<lambda>kv. confirmed_absent exited (fst kv)) (container_map launched)) = 0
   \<and> cleanup_dead_containers launched exited = (init, 1)
   \<and> length (filter (\<lambda>kv. confirmed_absent unreachable (fst kv)) (container_map launched)) = 0
   \<and> cleanup_dead_containers launched unreachable = (init, 1)"
  by (simp add: confirmed_absent_def cleanup_dead_containers_def launched_def exited_def
      unreachable_def engine_of_def discard_def dict_del_def init_def info1_def)

section \<open>Properties of the handlers\<close>


lemma find_update_first:
  assumes "\<And>x. P (f x) = P x"
  shows "find P (update_first P f xs) = map_option f (find P xs)"
  using assms by (induction xs) auto

lemma owned_by_status [simp]:
  "owned_by mid uid (r\<lparr>row_status := s\<rparr>) = owned_by mid uid r"
  by (simp add: owned_by_def)

lemma first_meeting_after_status:
  "first_meeting (update_first (owned_by mid uid) (\<lambda>r. r\<lparr>row_status := s\<rparr>) rows) mid uid
     = map_option (\<lambda>r. r\<lparr>row_status := s\<rparr>) (first_meeting rows mid uid)"
  unfolding first_meeting_def by (rule find_update_first) simp

lemma pause_meeting_200:
  assumes "first_meeting (db a) mid uid = Some r" and "container_of r = Some cid"
    and "post (control_url r mid ''pause'') = Response 200"
  shows "pause_meeting a post mid uid
           = (a\<lparr>db := update_first (owned_by mid uid) (\<lambda>r. r\<lparr>row_status := ''paused''\<rparr>) (db a)\<rparr>,
              Inr ''Meeting paused successfully'')"
  using assms by (simp add: pause_meeting_def)

lemma pause_meeting_not_200:
  assumes "first_meeting (db a) mid uid = Some r" and "container_of r = Some cid"
    and "post (control_url r mid ''pause'') \<noteq> Response 200"
  shows "pause_meeting a post mid uid = (a, Inl (HTTPException 500 ''Failed to pause meeting''))"
  using assms by (auto simp: pause_meeting_def split: http_result.splits)

lemma resume_meeting_200:
  assumes "first_meeting (db a) mid uid = Some r" and "container_of r = Some cid"
    and "post (control_url r mid ''resume'') = Response 200"
  shows "resume_meeting a post mid uid
           = (a\<lparr>db := update_first (owned_by mid uid) (\<lambda>r. r\<lparr>row_status := ''running''\<rparr>) (db a)\<rparr>,
              Inr ''Meeting resumed successfully'')"
  using assms by (simp add: resume_meeting_def)

lemma resume_meeting_not_200:
  assumes "first_meeting (db a) mid uid = Some r" and "container_of r = Some cid"
    and "post (control_url r mid ''resume'') \<noteq> Response 200"
  shows "resume_meeting a post mid uid = (a, Inl (HTTPException 500 ''Failed to resume meeting''))"
  using assms by (auto simp: resume_meeting_def split: http_result.splits)

lemma pause_meeting_changes_only_on_200:
  assumes "fst (pause_meeting a post mid uid) \<noteq> a"
  shows "\<exists>r. first_meeting (db a) mid uid = Some r
             \<and> post (control_url r mid ''pause'') = Response 200"
  using assms
  by (auto simp: pause_meeting_def split: option.splits http_result.splits if_splits)

lemma resume_meeting_changes_only_on_200:
  assumes "fst (resume_meeting a post mid uid) \<noteq> a"
  shows "\<exists>r. first_meeting (db a) mid uid = Some r
             \<and> post (control_url r mid ''resume'') = Response 200"
  using assms
  by (auto simp: resume_meeting_def split: option.splits http_result.splits if_splits)

text \<open>
  Claim C9. For a pause or resume of a worker that has a container, any answer of the
  control endpoint other than a response with code 200, a transport error or timeout
  included, gives the handler's failure (HTTP 500, 'Failed to pause meeting' or 'Failed
  to resume meeting') and leaves the whole state, the recorded status with it, as it
  was. A 200 sets the status of the worker's row to the action's target, \<^verbatim>\<open>paused\<close>
  or \<^verbatim>\<open>running\<close>, and changes nothing else. Conversely the state changes only when
  the answer was a 200.
\<close>

theorem control_call_updates_status_only_on_200:
  "(first_meeting (db a) mid uid = Some r \<and> container_of r = Some cid \<longrightarrow>
      (post (control_url r mid ''pause'') \<noteq> Response 200 \<longrightarrow>
         pause_meeting a post mid uid = (a, Inl (HTTPException 500 ''Failed to pause meeting'')))
      \<and> (post (control_url r mid ''pause'') = Response 200 \<longrightarrow>
         pause_meeting a post mid uid
           = (a\<lparr>db := update_first (owned_by mid uid) (\<lambda>r. r\<lparr>row_status := ''paused''\<rparr>) (db a)\<rparr>,
              Inr ''Meeting paused successfully'')
         \<and> first_meeting (db (fst (pause_meeting a post mid uid))) mid uid
           = Some (r\<lparr>row_status := ''paused''\<rparr>))
      \<and> (post (control_url r mid ''resume'') \<noteq> Response 200 \<longrightarrow>
         resume_meeting a post mid uid = (a, Inl (HTTPException 500 ''Failed to resume meeting'')))
      \<and> (post (control_url r mid ''resume'') = Response 200 \<longrightarrow>
         resume_meeting a post mid uid
           = (a\<lparr>db := update_first (owned_by mid uid) (\<lambda>r. r\<lparr>row_status := ''running''\<rparr>) (db a)\<rparr>,
              Inr ''Meeting resumed successfully'')
         \<and> first_meeting (db (fst (resume_meeting a post mid uid))) mid uid
           = Some (r\<lparr>row_status := ''running''\<rparr>)))
   \<and> (fst (pause_meeting a post mid uid) \<noteq> a \<longrightarrow>
        (\<exists>r. first_meeting (db a) mid uid = Some r
             \<and> post (control_url r mid ''pause'') = Response 200))
   \<and> (fst (resume_meeting a post mid uid) \<noteq> a \<longrightarrow>
        (\<exists>r. first_meeting (db a) mid uid = Some r
             \<and> post (control_url r mid ''resume'') = Response 200))"
proof (intro conjI impI)
  assume h: "first_meeting (db a) mid uid = Some r \<and> container_of r = Some cid"
  then have f: "first_meeting (db a) mid uid = Some r" and c: "container_of r = Some cid"
    by simp_all
  { assume "post (control_url r mid ''pause'') \<noteq> Response 200"
    then show "pause_meeting a post mid uid = (a, Inl (HTTPException 500 ''Failed to pause meeting''))"
      by (rule pause_meeting_not_200[of a mid uid r cid post, OF f c]) }
  { assume p: "post (control_url r mid ''pause'') = Response 200"
    show "pause_meeting a post mid uid
           = (a\<lparr>db := update_first (owned_by mid uid) (\<lambda>r. r\<lparr>row_status := ''paused''\<rparr>) (db a)\<rparr>,
              Inr ''Meeting paused successfully'')"
      by (rule pause_meeting_200[of a mid uid r cid post, OF f c p])
    show "first_meeting (db (fst (pause_meeting a post mid uid))) mid uid
           = Some (r\<lparr>row_status := ''paused''\<rparr>)"
      by (simp add: pause_meeting_200[of a mid uid r cid post, OF f c p] first_meeting_after_status f) }
  { assume "post (control_url r mid ''resume'') \<noteq> Response 200"
    then show "resume_meeting a post mid uid = (a, Inl (HTTPException 500 ''Failed to resume meeting''))"
      by (rule resume_meeting_not_200[of a mid uid r cid post, OF f c]) }
  { assume p: "post (control_url r mid ''resume'') = Response 200"
    show "resume_meeting a post mid uid
           = (a\<lparr>db := update_first (owned_by mid uid) (\<lambda>r. r\<lparr>row_status := ''running''\<rparr>) (db a)\<rparr>,
              Inr ''Meeting resumed successfully'')"
      by (rule resume_meeting_200[of a mid uid r cid post, OF f c p])
    show "first_meeting (db (fst (resume_meeting a post mid uid))) mid uid
           = Some (r\<lparr>row_status := ''running''\<rparr>)"
      by (simp add: resume_meeting_200[of a mid uid r cid post, OF f c p] first_meeting_after_status f) }
next
  assume "fst (pause_meeting a post mid uid) \<noteq> a"
  then show "\<exists>r. first_meeting (db a) mid uid = Some r
             \<and> post (control_url r mid ''pause'') = Response 200"
    by (rule pause_meeting_changes_only_on_200)
next
  assume "fst (resume_meeting a post mid uid) \<noteq> a"
  then show "\<exists>r. first_meeting (db a) mid uid = Some r
             \<and> post (control_url r mid ''resume'') = Response 200"
    by (rule resume_meeting_changes_only_on_200)
qed

lemma started_first: "first_meeting (db started) ''u1'' ''alice'' = Some row1"
  by (simp add: first_meeting_def started_def owned_by_def row1_def)

lemma row1_container: "container_of row1 = Some ''c1''"
  by (simp add: container_of_def row1_def)

theorem control_call_updates_status_only_on_200_witness:
  "first_meeting (db started) ''u1'' ''alice'' = Some row1
   \<and> container_of row1 = Some ''c1''
   \<and> row_status row1 = ''starting''
   \<and> pause_meeting started (answers TransportError) ''u1'' ''alice''
       = (started, Inl (HTTPException 500 ''Failed to pause meeting''))
   \<and> resume_meeting started (answers (Response 503)) ''u1'' ''alice''
       = (started, Inl (HTTPException 500 ''Failed to resume meeting''))
   \<and> first_meeting (db (fst (pause_meeting started (answers (Response 200)) ''u1'' ''alice'')))
         ''u1'' ''alice'' = Some (row1\<lparr>row_status := ''paused''\<rparr>)
   \<and> first_meeting (db (fst (resume_meeting started (answers (Response 200)) ''u1'' ''alice'')))
         ''u1'' ''alice'' = Some (row1\<lparr>row_status := ''running''\<rparr>)
   \<and> fst (pause_meeting started (answers (Response 200)) ''u1'' ''alice'') \<noteq> started"
proof -
  note f = started_first and c = row1_container
  have s: "row_status row1 = ''starting''" by (simp add: row1_def)
  have te: "answers TransportError (control_url row1 ''u1'' ''pause'') \<noteq> Response 200"
    and r503: "answers (Response 503) (control_url row1 ''u1'' ''resume'') \<noteq> Response 200"
    and p200: "answers (Response 200) (control_url row1 ''u1'' ''pause'') = Response 200"
    and r200: "answers (Response 200) (control_url row1 ''u1'' ''resume'') = Response 200"
    by (simp_all add: answers_def)
  from control_call_updates_status_only_on_200
         [of started "''u1''" "''alice''" row1 "''c1''" "answers TransportError"] f c te
  have one: "pause_meeting started (answers TransportError) ''u1'' ''alice''
       = (started, Inl (HTTPException 500 ''Failed to pause meeting''))"
    by blast
  from control_call_updates_status_only_on_200
         [of started "''u1''" "''alice''" row1 "''c1''" "answers (Response 503)"] f c r503
  have two: "resume_meeting started (answers (Response 503)) ''u1'' ''alice''
       = (started, Inl (HTTPException 500 ''Failed to resume meeting''))"
    by blast
  from control_call_updates_status_only_on_200
         [of started "''u1''" "''alice''" row1 "''c1''" "answers (Response 200)"] f c p200 r200
  have three: "first_meeting (db (fst (pause_meeting started (answers (Response 200)) ''u1'' ''alice'')))
         ''u1'' ''alice'' = Some (row1\<lparr>row_status := ''paused''\<rparr>)"
    and four: "first_meeting (db (fst (resume_meeting started (answers (Response 200)) ''u1'' ''alice'')))
         ''u1'' ''alice'' = Some (row1\<lparr>row_status := ''running''\<rparr>)"
    by blast+
  have five: "fst (pause_meeting started (answers (Response 200)) ''u1'' ''alice'') \<noteq> started"
  proof
    assume "fst (pause_meeting started (answers (Response 200)) ''u1'' ''alice'') = started"
    with three f have "row1\<lparr>row_status := ''paused''\<rparr> = row1" by simp
    then have "row_status (row1\<lparr>row_status := ''paused''\<rparr>) = row_status row1" by simp
    then show False by (simp add: s)
  qed
  from f c s one two three four five show ?thesis by blast
qed

lemma owned_by_stopped [simp]:
  "owned_by mid uid (r\<lparr>row_status := s, row_container_id := c, row_port := p\<rparr>)
     = owned_by mid uid r"
  by (simp add: owned_by_def)

lemma first_meeting_after_stop:
  "first_meeting
     (update_first (owned_by mid uid)
        (\<lambda>r. r\<lparr>row_status := ''stopped'', row_container_id := None, row_port := None\<rparr>) rows)
     mid uid
   = map_option (\<lambda>r. r\<lparr>row_status := ''stopped'', row_container_id := None, row_port := None\<rparr>)
       (first_meeting rows mid uid)"
  unfolding first_meeting_def by (rule find_update_first) simp

lemma stop_meeting_success:
  assumes "stop_meeting a eng mid uid = (a', Inr msg)"
  shows "\<exists>r. first_meeting (db a') mid uid = Some r
             \<and> row_status r = ''stopped'' \<and> container_of r = None"
proof -
  from assms obtain r0 m' where f: "first_meeting (db a) mid uid = Some r0"
    and a': "a' = \<lparr>docker_manager = Some m',
                    db = update_first (owned_by mid uid)
                           (\<lambda>r. r\<lparr>row_status := ''stopped'', row_container_id := None,
                                  row_port := None\<rparr>) (db a)\<rparr>"
    by (auto simp: stop_meeting_def split: option.splits sum.splits prod.splits if_splits)
  show ?thesis
    by (simp add: a' first_meeting_after_stop f container_of_def)
qed

lemma stop_meeting_not_found:
  assumes "first_meeting (db a) mid uid = None"
  shows "stop_meeting a eng mid uid = (a, Inl (HTTPException 404 ''Meeting not found''))"
  using assms by (simp add: stop_meeting_def)

lemma stop_meeting_no_container:
  assumes "first_meeting (db a) mid uid = Some r" and "container_of r = None"
  shows "stop_meeting a eng mid uid = (a, Inl (HTTPException 400 ''Meeting bot not running''))"
  using assms by (simp add: stop_meeting_def)



lemma first_meeting_None_iff:
  "first_meeting rows mid uid = None \<longleftrightarrow> \<not> (\<exists>r \<in> set rows. row_id r = mid \<and> row_user_id r = uid)"
  by (auto simp: first_meeting_def find_None_iff owned_by_def)



lemma explicit_stop_of_started:
  "stop_meeting started up ''u1'' ''alice'' = (after_stop, Inr ''Meeting stopped successfully'')"
  by (simp add: stop_meeting_def first_meeting_def container_of_def started_def
      get_docker_manager_def stop_meeting_bot_cases launched_def up_def engine_of_def
      discard_def dict_del_def info1_def owned_by_def row1_def after_stop_def stopped_row_def
      init_def)


lemma after_stop_first: "first_meeting (db after_stop) ''u1'' ''alice'' = Some stopped_row"
  by (simp add: after_stop_def first_meeting_def owned_by_def stopped_row_def row1_def)

lemma stopped_row_no_container: "container_of stopped_row = None"
  by (simp add: container_of_def stopped_row_def)




text \<open>
  Claim C7. A stop of a meeting id that no row of the caller carries (the id does not
  exist, or belongs to another user) fails with 404 'Meeting not found' and changes
  nothing. A successful stop leaves the worker's row with status \<^verbatim>\<open>stopped\<close> and
  without container id; a stop of a worker in that state, whatever the engine then
  answers, fails with 400 'Meeting bot not running' (the handler's answer for a worker
  that is already terminal) and leaves the manager and the table unchanged, so no port
  is released a second time. The same holds for every row without container id.
\<close>

theorem stop_of_unknown_or_stopped_worker_fails:
  "(\<not> (\<exists>r \<in> set (db a). row_id r = mid \<and> row_user_id r = uid) \<longrightarrow>
      stop_meeting a eng mid uid = (a, Inl (HTTPException 404 ''Meeting not found'')))
   \<and> (first_meeting (db a) mid uid = Some r \<and> container_of r = None \<longrightarrow>
        stop_meeting a eng mid uid = (a, Inl (HTTPException 400 ''Meeting bot not running'')))
   \<and> (stop_meeting a eng mid uid = (a', Inr msg) \<longrightarrow>
        (\<exists>r. first_meeting (db a') mid uid = Some r
             \<and> row_status r = ''stopped'' \<and> container_of r = None)
        \<and> stop_meeting a' eng' mid uid = (a', Inl (HTTPException 400 ''Meeting bot not running'')))"
proof (intro conjI impI)
  assume "\<not> (\<exists>r \<in> set (db a). row_id r = mid \<and> row_user_id r = uid)"
  then have "first_meeting (db a) mid uid = None"
    by (simp add: first_meeting_None_iff)
  then show "stop_meeting a eng mid uid = (a, Inl (HTTPException 404 ''Meeting not found''))"
    by (rule stop_meeting_not_found)
next
  assume "first_meeting (db a) mid uid = Some r \<and> container_of r = None"
  then show "stop_meeting a eng mid uid = (a, Inl (HTTPException 400 ''Meeting bot not running''))"
    using stop_meeting_no_container by blast
next
  assume "stop_meeting a eng mid uid = (a', Inr msg)"
  from stop_meeting_success[OF this]
  show stopped: "\<exists>r. first_meeting (db a') mid uid = Some r
             \<and> row_status r = ''stopped'' \<and> container_of r = None" .
  then obtain r' where
    "first_meeting (db a') mid uid = Some r'" and "container_of r' = None"
    by blast
  then show "stop_meeting a' eng' mid uid = (a', Inl (HTTPException 400 ''Meeting bot not running''))"
    by (rule stop_meeting_no_container)
qed

theorem stop_of_unknown_or_stopped_worker_fails_witness:
  "\<not> (\<exists>r \<in> set (db started). row_id r = ''u1'' \<and> row_user_id r = ''bob'')
   \<and> stop_meeting started up ''u1'' ''bob'' = (started, Inl (HTTPException 404 ''Meeting not found''))
   \<and> first_meeting (db after_stop) ''u1'' ''alice'' = Some stopped_row
   \<and> container_of stopped_row = None
   \<and> stop_meeting started up ''u1'' ''alice'' = (after_stop, Inr ''Meeting stopped successfully'')
   \<and> row_status stopped_row = ''stopped''
   \<and> map_option used_ports (docker_manager started) = Some {3001}
   \<and> map_option used_ports (docker_manager after_stop) = Some {}
   \<and> stop_meeting after_stop gone ''u1'' ''alice''
       = (after_stop, Inl (HTTPException 400 ''Meeting bot not running''))"
proof -
  have st: "row_status stopped_row = ''stopped''" by (simp add: stopped_row_def)
  have before: "map_option used_ports (docker_manager started) = Some {3001}"
    by (simp add: started_def launched_def)
  have after: "map_option used_ports (docker_manager after_stop) = Some {}"
    by (simp add: after_stop_def init_def)
  have nobody: "\<not> (\<exists>r \<in> set (db started). row_id r = ''u1'' \<and> row_user_id r = ''bob'')"
    by (simp add: started_def row1_def)
  note s = explicit_stop_of_started and f = after_stop_first and c = stopped_row_no_container
  from stop_of_unknown_or_stopped_worker_fails
         [where a = started and mid = "''u1''" and uid = "''bob''" and eng = up] nobody
  have one: "stop_meeting started up ''u1'' ''bob''
               = (started, Inl (HTTPException 404 ''Meeting not found''))"
    by blast
  from stop_of_unknown_or_stopped_worker_fails
         [where a = started and mid = "''u1''" and uid = "''alice''" and eng = up
            and a' = after_stop and msg = "''Meeting stopped successfully''" and eng' = gone] s
  have two: "stop_meeting after_stop gone ''u1'' ''alice''
       = (after_stop, Inl (HTTPException 400 ''Meeting bot not running''))"
    by blast
  from stop_of_unknown_or_stopped_worker_fails
         [where a = after_stop and mid = "''u1''" and uid = "''alice''" and eng = up
            and r = stopped_row] f c
  have three: "stop_meeting after_stop up ''u1'' ''alice''
       = (after_stop, Inl (HTTPException 400 ''Meeting bot not running''))"
    by blast
  from nobody one f c s st before after two show ?thesis by blast
qed

section \<open>Properties of the Kubernetes job\<close>

lemma job_containers_build:
  "job_containers (build_job_spec meeting_id uuid_val duration_min record_type img)
     = [bot_container meeting_id uuid_val duration_min record_type img, selenium_container]"
  by (simp add: job_containers_def build_job_spec_def Let_def)

text \<open>
  Claim C10, as the code has it. The pod template of every job has exactly two
  containers, the worker and the Selenium sidecar, in this order. The sidecar has a
  startup and a readiness probe, the worker has none and starts with
  \<^verbatim>\<open>sleep 12\<close>; both have resource requests and limits. The worker's environment
  is \<^verbatim>\<open>MEETING_ID\<close>, \<^verbatim>\<open>UUID\<close>, \<^verbatim>\<open>RECORD_TYPE\<close>, \<^verbatim>\<open>DURATION\<close>, \<^verbatim>\<open>DYNAMIC_PORT\<close>,
  \<^verbatim>\<open>DISPLAY\<close> and \<^verbatim>\<open>SELENIUM_URL\<close>: it carries the meeting id and the duration,
  \<^verbatim>\<open>DYNAMIC_PORT\<close> is the constant 3000 and not an allocated port, and there is no
  owner id.
\<close>

theorem job_has_worker_and_probed_sidecar:
  "map c_name (job_containers (build_job_spec meeting_id uuid_val duration_min record_type img))
     = [''worker'', ''selenium'']
   \<and> length (job_containers (build_job_spec meeting_id uuid_val duration_min record_type img)) = 2
   \<and> map c_command (job_containers (build_job_spec meeting_id uuid_val duration_min record_type img))
     = [Some [''sh'', ''-lc'', ''sleep 12; exec bun run index.ts''], None]
   \<and> map (\<lambda>c. c_startup_probe c \<noteq> None \<and> c_readiness_probe c \<noteq> None)
        (job_containers (build_job_spec meeting_id uuid_val duration_min record_type img))
     = [False, True]
   \<and> list_all (\<lambda>c. case c_resources c of
                      None \<Rightarrow> False
                    | Some res \<Rightarrow> requests res \<noteq> [] \<and> limits res \<noteq> [])
        (job_containers (build_job_spec meeting_id uuid_val duration_min record_type img))
   \<and> map env_name (c_env (bot_container meeting_id uuid_val duration_min record_type img))
     = [''MEETING_ID'', ''UUID'', ''RECORD_TYPE'', ''DURATION'', ''DYNAMIC_PORT'', ''DISPLAY'',
        ''SELENIUM_URL'']
   \<and> env_lookup (c_env (bot_container meeting_id uuid_val duration_min record_type img)) ''MEETING_ID''
     = Some meeting_id
   \<and> env_lookup (c_env (bot_container meeting_id uuid_val duration_min record_type img)) ''DURATION''
     = Some (str_int duration_min)
   \<and> env_lookup (c_env (bot_container meeting_id uuid_val duration_min record_type img)) ''DYNAMIC_PORT''
     = Some ''3000''
   \<and> env_lookup (c_env (bot_container meeting_id uuid_val duration_min record_type img)) ''USER_ID''
     = None"
  by (simp add: job_containers_build bot_container_def selenium_container_def bot_env_def
      env_lookup_def)

text \<open>
  Claim C10 as stated fails: the local launch passes \<^verbatim>\<open>USER_ID\<close> and the allocated
  port to the worker, the job passes neither.
\<close>

theorem job_worker_has_no_owner_id_and_fixed_port:
  "map fst (run_environment (run_request_of ''meeting-bot-alice-17-3001'' ''u1'' meet_url ''alice'' 60 3001))
     = [''UUID'', ''MEETING_ID'', ''USER_ID'', ''DURATION'', ''DYNAMIC_PORT'']
   \<and> map_of (run_environment (run_request_of ''meeting-bot-alice-17-3001'' ''u1'' meet_url ''alice'' 60 3001))
        ''DYNAMIC_PORT'' = Some ''3001''
   \<and> ''USER_ID'' \<notin> set (map env_name (c_env (hd (job_containers example_job))))
   \<and> env_lookup (c_env (hd (job_containers example_job))) ''DYNAMIC_PORT'' = Some ''3000''"
  by (simp add: run_request_of_def str_int_3001 example_job_def job_containers_build
      bot_container_def bot_env_def env_lookup_def)

end
